theory Spec2Isabelle
  imports Complex_Main
begin

section \<open>Plate rotation functions of GPHS441_plates.py\<close>

text \<open>
  The module computes with numpy arrays of float64. In this development a float is a
  real number and every operation is the exact one. Rounding, overflow and underflow
  are not modelled: the squares in \<open>length\<close> neither overflow to \<open>inf\<close> nor underflow
  to \<open>0.0\<close>, and \<open>cos\<close> of a quarter turn is exactly 0, where float64 leaves a residue
  near \<open>6e-17\<close>. The theorems below are therefore those whose statement does not turn
  on such effects: an identity of real arithmetic, an exact result at a given input,
  an error raised before any arithmetic, or a unit length met within rounding. A
  one-dimensional array is a list of reals, a two-dimensional array is the list of
  its rows.

  An exception of the source is a value \<open>Inl e\<close>. numpy does not raise on a float
  division \<open>0/0\<close>: it yields \<open>nan\<close>, which then fills the whole returned array. That
  outcome is \<open>Inl NaN\<close>: HOL's total division (\<open>x / 0 = 0\<close>) is never used in its place.
\<close>

type_synonym vec = "real list"
type_synonym mat = "real list list"

datatype error = ValueError | IndexError | NaN

subsection \<open>The numpy operations the module calls\<close>

definition dot :: "vec \<Rightarrow> vec \<Rightarrow> real" where
  \<comment> \<open>\<open>u.dot(v)\<close> on two one-dimensional arrays of the same length\<close>
  "dot u v = sum_list (map2 (*) u v)"

definition matvec :: "mat \<Rightarrow> vec \<Rightarrow> vec" where
  \<comment> \<open>\<open>np.dot(A, v)\<close>, \<open>A\<close> two-dimensional and \<open>v\<close> one-dimensional\<close>
  "matvec A v = map (\<lambda>row. dot row v) A"

definition matmul :: "mat \<Rightarrow> mat \<Rightarrow> mat" where
  \<comment> \<open>\<open>np.dot(A, B)\<close> on two-dimensional arrays\<close>
  "matmul A B = map (\<lambda>row. map (\<lambda>col. dot row col) (transpose B)) A"

definition madd :: "mat \<Rightarrow> mat \<Rightarrow> mat" where
  \<comment> \<open>\<open>A + B\<close>, elementwise on arrays of one shape\<close>
  "madd A B = map2 (map2 (+)) A B"

definition smul :: "real \<Rightarrow> mat \<Rightarrow> mat" where
  \<comment> \<open>\<open>s * A\<close>, a scalar times an array\<close>
  "smul s A = map (map ((*) s)) A"

definition vdiv :: "vec \<Rightarrow> real \<Rightarrow> vec" where
  \<comment> \<open>\<open>v / s\<close>, an array over a scalar; the callers below exclude \<open>s = 0\<close>\<close>
  "vdiv v s = map (\<lambda>x. x / s) v"

definition identity :: "nat \<Rightarrow> mat" where
  \<comment> \<open>\<open>np.identity(n)\<close>\<close>
  "identity n = map (\<lambda>i. map (\<lambda>j. if i = j then 1 else 0) [0..<n]) [0..<n]"

definition cross :: "vec \<Rightarrow> vec \<Rightarrow> vec" where
  \<comment> \<open>\<open>np.cross(h, u)\<close> on two 3-vectors, as the docstring of \<open>M\<close> uses it\<close>
  "cross h u = [h ! 1 * u ! 2 - h ! 2 * u ! 1,
                h ! 2 * u ! 0 - h ! 0 * u ! 2,
                h ! 0 * u ! 1 - h ! 1 * u ! 0]"

definition radians :: "real \<Rightarrow> real" where
  "radians d = d * pi / 180"

definition degrees :: "real \<Rightarrow> real" where
  "degrees r = r * 180 / pi"

definition np_mod :: "real \<Rightarrow> real \<Rightarrow> real" where
  \<comment> \<open>\<open>np.mod(a, b)\<close> on floats: the remainder has the sign of \<open>b\<close>\<close>
  "np_mod a b = a - b * of_int \<lfloor>a / b\<rfloor>"

subsection \<open>length, positionVector, lonlat\<close>

definition lengthV :: "vec \<Rightarrow> real" where
  "lengthV v = sqrt (dot v v)"

definition positionVector :: "vec \<Rightarrow> error + vec" where
  \<comment> \<open>\<open>lonlat[0]\<close> and \<open>lonlat[1]\<close> raise IndexError on a shorter input; further
      components are ignored\<close>
  "positionVector ll =
     (if length ll < 2 then Inl IndexError
      else let lon = radians (ll ! 0);
               lat = radians (ll ! 1);
               x = cos lon * cos lat;
               y = sin lon * cos lat;
               z = sin lat
           in Inr [x, y, z])"

definition lonlat :: "vec \<Rightarrow> error + vec" where
  \<comment> \<open>where \<open>L = 0\<close> the three quotients are \<open>0/0\<close> and the source returns
      \<open>[nan, nan]\<close>; in exact arithmetic that is the zero vector only (in float64 also
      every vector whose squares underflow, which is not modelled)\<close>
  "lonlat v =
     (if length v \<noteq> 3 then Inl ValueError
      else let L = lengthV v in
        if L = 0 then Inl NaN
        else let x = v ! 0 / L;
                 y = v ! 1 / L;
                 z = v ! 2 / L;
                 lat = degrees (arcsin z);
                 lon = (if x = 0 then sgn y * 90
                        else if x > 0 then degrees (arctan (y / x))
                        else if y = 0 then 180 + degrees (arctan (y / x))
                        else sgn y * 180 + degrees (arctan (y / x)))
             in Inr [np_mod lon 360, lat])"

subsection \<open>M and rotationMatrix\<close>

definition M :: "vec \<Rightarrow> error + mat" where
  "M h =
     (if length h \<noteq> 3 then Inl ValueError
      else Inr [[0, - (h ! 2), h ! 1],
                [h ! 2, 0, - (h ! 0)],
                [- (h ! 1), h ! 0, 0]])"

definition rotationMatrix :: "vec \<Rightarrow> error + mat" where
  "rotationMatrix h =
     (if length h \<noteq> 3 then Inl ValueError
      else let angle = lengthV h;
               I = identity 3
           in if angle = 0 then Inr I
              else let polePositionVector = vdiv h angle
                   in case M polePositionVector of
                        Inl e \<Rightarrow> Inl e
                      | Inr P \<Rightarrow>
                          Inr (madd (madd I (smul (sin angle) P))
                                    (smul (1 - cos angle) (matmul P P))))"

subsection \<open>readGMTxy\<close>

text \<open>
  The file is the list of its lines, as \<open>f.readlines()\<close> returns them (each with its
  newline). \<open>line.strip().split()\<close> cuts a line of ASCII text at runs of white space.
  Python's builtin \<open>float\<close> is the parameter \<open>pyfloat\<close>, with \<open>None\<close> where \<open>float\<close>
  raises ValueError. A feature \<open>[x, y]\<close> is the list of the two coordinate lists.
\<close>

definition is_space :: "char \<Rightarrow> bool" where
  "is_space c \<longleftrightarrow> c = CHR '' '' \<or> c = CHR 0x09 \<or> c = CHR 0x0A \<or> c = CHR 0x0B
     \<or> c = CHR 0x0C \<or> c = CHR 0x0D \<or> c = CHR 0x1C \<or> c = CHR 0x1D \<or> c = CHR 0x1E
     \<or> c = CHR 0x1F"

definition strip :: "string \<Rightarrow> string" where
  "strip s = rev (dropWhile is_space (rev (dropWhile is_space s)))"

fun split_from :: "string \<Rightarrow> string \<Rightarrow> string list" where
  "split_from w [] = (if w = [] then [] else [w])"
| "split_from w (c # cs) =
     (if is_space c then (if w = [] then split_from [] cs else w # split_from [] cs)
      else split_from (w @ [c]) cs)"

definition split :: "string \<Rightarrow> string list" where
  \<comment> \<open>\<open>s.split()\<close> with no separator: the maximal runs of characters that are not
      white space\<close>
  "split s = split_from [] s"

fun readGMTxy_lines ::
  "(string \<Rightarrow> real option) \<Rightarrow> string list \<Rightarrow> real list list list \<Rightarrow> real list \<Rightarrow> real list
     \<Rightarrow> error + real list list list" where
  \<comment> \<open>the \<open>for line in data\<close> loop, then \<open>return feature\<close>; \<open>w[0]\<close> on a blank line and
      \<open>w[1]\<close> on a line of one word raise IndexError\<close>
  "readGMTxy_lines pyfloat [] feature x y = Inr feature"
| "readGMTxy_lines pyfloat (line # data) feature x y =
     (case split (strip line) of
        [] \<Rightarrow> Inl IndexError
      | w0 # ws \<Rightarrow>
          if w0 = ''>'' then
            readGMTxy_lines pyfloat data (if x \<noteq> [] then feature @ [[x, y]] else feature) [] []
          else
            (case pyfloat w0 of
               None \<Rightarrow> Inl ValueError
             | Some fx \<Rightarrow>
                 (case ws of
                    [] \<Rightarrow> Inl IndexError
                  | w1 # _ \<Rightarrow>
                      (case pyfloat w1 of
                         None \<Rightarrow> Inl ValueError
                       | Some fy \<Rightarrow>
                           readGMTxy_lines pyfloat data feature (x @ [fx]) (y @ [fy])))))"

definition readGMTxy :: "(string \<Rightarrow> real option) \<Rightarrow> string list \<Rightarrow> error + real list list list" where
  "readGMTxy pyfloat data = readGMTxy_lines pyfloat data [] [] []"

text \<open>
  \<open>float_digits\<close> is \<open>float\<close> on the strings of decimal digits only (\<open>float('12')\<close> is
  \<open>12.0\<close>); it stands for \<open>pyfloat\<close> where an example file is run.
\<close>

definition digit_of :: "char \<Rightarrow> nat option" where
  "digit_of c =
     (if c = CHR ''0'' then Some 0 else if c = CHR ''1'' then Some 1
      else if c = CHR ''2'' then Some 2 else if c = CHR ''3'' then Some 3
      else if c = CHR ''4'' then Some 4 else if c = CHR ''5'' then Some 5
      else if c = CHR ''6'' then Some 6 else if c = CHR ''7'' then Some 7
      else if c = CHR ''8'' then Some 8 else if c = CHR ''9'' then Some 9
      else None)"

fun digits_from :: "nat \<Rightarrow> string \<Rightarrow> nat option" where
  "digits_from n [] = Some n"
| "digits_from n (c # cs) =
     (case digit_of c of None \<Rightarrow> None | Some d \<Rightarrow> digits_from (10 * n + d) cs)"

definition float_digits :: "string \<Rightarrow> real option" where
  "float_digits s = (if s = [] then None else map_option real (digits_from 0 s))"

subsection \<open>The closed form of Rodrigues' formula\<close>

text \<open>
  For a pole \<open>(p, q, r)\<close>, \<open>s = sin angle\<close> and \<open>c = cos angle\<close>, the entries of
  \<open>I + s * P + (1 - c) * np.dot(P, P)\<close> written out. It is used in proofs only;
  \<open>rotationMatrix_nonzero\<close> below shows that \<open>rotationMatrix\<close> computes it.
\<close>

definition rodrigues :: "real \<Rightarrow> real \<Rightarrow> real \<Rightarrow> real \<Rightarrow> real \<Rightarrow> mat" where
  "rodrigues p q r s c =
     [[1 - (1 - c) * (q * q + r * r), (1 - c) * (p * q) - s * r, (1 - c) * (p * r) + s * q],
      [(1 - c) * (p * q) + s * r, 1 - (1 - c) * (p * p + r * r), (1 - c) * (q * r) - s * p],
      [(1 - c) * (p * r) - s * q, (1 - c) * (q * r) + s * p, 1 - (1 - c) * (p * p + q * q)]]"

section \<open>Auxiliary facts\<close>

lemma identity_3: "identity 3 = [[1, 0, 0], [0, 1, 0], [0, 0, 1]]"
  by (simp add: identity_def upt_rec)

lemma vec3_cases:
  assumes "length (v :: real list) = 3"
  obtains a b c where "v = [a, b, c]"
proof -
  from assms obtain a v1 where v: "v = a # v1" and l1: "length v1 = 2"
    by (cases v) auto
  from l1 obtain b v2 where v1: "v1 = b # v2" and l2: "length v2 = 1"
    by (cases v1) auto
  from l2 obtain c where "v2 = [c]"
    by (cases v2) auto
  with v v1 have "v = [a, b, c]" by simp
  then show thesis by (rule that)
qed

lemma lengthV_uminus: "lengthV (map uminus v) = lengthV v"
proof -
  have "map2 (*) (map uminus v) (map uminus v) = map2 (*) v v"
    by (induction v) auto
  then show ?thesis by (simp add: lengthV_def dot_def)
qed

lemma unit_pole:
  assumes "lengthV [a, b, c] \<noteq> 0"
  shows "(a / lengthV [a, b, c])\<^sup>2 + (b / lengthV [a, b, c])\<^sup>2 + (c / lengthV [a, b, c])\<^sup>2 = 1"
proof -
  let ?L = "lengthV [a, b, c]"
  have nn: "0 \<le> a * a + b * b + c * c" by simp
  have "?L = sqrt (a * a + b * b + c * c)"
    by (simp add: lengthV_def dot_def)
  then have "?L\<^sup>2 = a * a + b * b + c * c"
    using nn by (simp only: real_sqrt_pow2)
  moreover have "?L\<^sup>2 \<noteq> 0" using assms by simp
  ultimately show ?thesis
    by (simp add: power_divide add_divide_distrib [symmetric] power2_eq_square)
qed

lemma rodrigues_formula:
  "madd (madd (identity 3) (smul s [[0, - r, q], [r, 0, - p], [- q, p, 0]]))
        (smul (1 - c) (matmul [[0, - r, q], [r, 0, - p], [- q, p, 0]]
                              [[0, - r, q], [r, 0, - p], [- q, p, 0]]))
   = rodrigues p q r s c"
  by (simp add: identity_3 madd_def smul_def matmul_def dot_def rodrigues_def algebra_simps)

lemma rotationMatrix_nonzero:
  assumes "lengthV [a, b, c] \<noteq> 0"
  shows "rotationMatrix [a, b, c] =
         Inr (rodrigues (a / lengthV [a, b, c]) (b / lengthV [a, b, c]) (c / lengthV [a, b, c])
                (sin (lengthV [a, b, c])) (cos (lengthV [a, b, c])))"
  using assms by (simp add: rotationMatrix_def Let_def M_def vdiv_def rodrigues_formula)

lemma rodrigues_transpose: "transpose (rodrigues p q r s c) = rodrigues (- p) (- q) (- r) s c"
  by (simp add: rodrigues_def)

lemma rodrigues_orth2:
  assumes "p\<^sup>2 + q\<^sup>2 + r\<^sup>2 = 1" "s\<^sup>2 + c\<^sup>2 = 1"
  shows "matmul (rodrigues p q r s c) (transpose (rodrigues p q r s c)) = identity 3"
  apply (simp add: rodrigues_def matmul_def dot_def identity_3)
  using assms apply (intro conjI)
          apply algebra+
  done

lemma unit_sphere:
  "cos a * cos b * (cos a * cos b) + (sin a * cos b * (sin a * cos b) + sin b * sin b) = (1::real)"
proof -
  have "(sin a)\<^sup>2 + (cos a)\<^sup>2 = 1" "(sin b)\<^sup>2 + (cos b)\<^sup>2 = 1" by simp_all
  then show ?thesis by algebra
qed

section \<open>The rotation matrix\<close>

text \<open>
  C4. On the zero vector \<open>rotationMatrix\<close> takes the branch \<open>angle == 0\<close> and returns
  the 3x3 identity matrix itself.
\<close>

theorem rotationMatrix_zero:
  "lengthV [0, 0, 0] = 0 \<and> rotationMatrix [0, 0, 0] = Inr (identity 3)
   \<and> identity 3 = [[1, 0, 0], [0, 1, 0], [0, 0, 1]]"
  by (simp add: rotationMatrix_def lengthV_def dot_def identity_3)

text \<open>
  C10. Negating the rotation vector transposes the rotation matrix, and the product of
  \<open>rotationMatrix h\<close> with \<open>rotationMatrix (- h)\<close> is the identity.
\<close>

theorem rotationMatrix_uminus:
  assumes "length h = 3"
  shows "\<exists>R R'. rotationMatrix h = Inr R \<and> rotationMatrix (map uminus h) = Inr R'
           \<and> R' = transpose R \<and> matmul R R' = identity 3"
proof -
  from assms obtain a b c where h: "h = [a, b, c]" by (rule vec3_cases)
  show ?thesis
  proof (cases "lengthV h = 0")
    case True
    then have "rotationMatrix h = Inr (identity 3)"
      using assms by (simp add: rotationMatrix_def)
    moreover from True have "rotationMatrix (map uminus h) = Inr (identity 3)"
      using assms by (simp add: rotationMatrix_def lengthV_uminus)
    moreover have "identity 3 = transpose (identity 3)"
      by (simp add: identity_3)
    moreover have "matmul (identity 3) (identity 3) = identity 3"
      by (simp add: identity_3 matmul_def dot_def)
    ultimately show ?thesis by simp
  next
    case False
    let ?L = "lengthV [a, b, c]"
    let ?R = "rodrigues (a / ?L) (b / ?L) (c / ?L) (sin ?L) (cos ?L)"
    from False have nz: "?L \<noteq> 0" by (simp add: h)
    have L': "lengthV [- a, - b, - c] = ?L"
      using lengthV_uminus [of "[a, b, c]"] by simp
    have unit: "(a / ?L)\<^sup>2 + (b / ?L)\<^sup>2 + (c / ?L)\<^sup>2 = 1"
      using nz by (rule unit_pole)
    have sc: "(sin ?L)\<^sup>2 + (cos ?L)\<^sup>2 = 1" by simp
    have "rotationMatrix h = Inr ?R"
      unfolding h using nz by (rule rotationMatrix_nonzero)
    moreover have "rotationMatrix (map uminus h) = Inr (transpose ?R)"
      using nz rotationMatrix_nonzero [of "- a" "- b" "- c"]
      by (simp add: h L' rodrigues_transpose)
    moreover have "matmul ?R (transpose ?R) = identity 3"
      using unit sc by (rule rodrigues_orth2)
    ultimately show ?thesis by blast
  qed
qed

theorem rotationMatrix_uminus_witness:
  "length [1, 0, 0 :: real] = 3 \<and>
   (\<exists>R R'. rotationMatrix [1, 0, 0] = Inr R \<and> rotationMatrix (map uminus [1, 0, 0]) = Inr R'
           \<and> R' = transpose R \<and> matmul R R' = identity 3)"
  using rotationMatrix_uminus [of "[1, 0, 0]"] by simp

section \<open>The skew matrix\<close>

text \<open>
  C6. For every 3-vector \<open>h = (hx, hy, hz)\<close>, \<open>M h\<close> is the matrix
  \<open>[[0, -hz, hy], [hz, 0, -hx], [-hy, hx, 0]]\<close>; its transpose is its negation (so
  entry \<open>(i, j)\<close> is minus entry \<open>(j, i)\<close> and the diagonal is zero); and its product
  with any 3-vector \<open>u\<close> is the cross product of \<open>h\<close> and \<open>u\<close>.
\<close>

theorem M_skew_cross:
  "M [hx, hy, hz] = Inr [[0, - hz, hy], [hz, 0, - hx], [- hy, hx, 0]]
   \<and> transpose [[0, - hz, hy], [hz, 0, - hx], [- hy, hx, 0]]
       = map (map uminus) [[0, - hz, hy], [hz, 0, - hx], [- hy, hx, 0]]
   \<and> matvec [[0, - hz, hy], [hz, 0, - hx], [- hy, hx, 0]] [ux, uy, uz]
       = cross [hx, hy, hz] [ux, uy, uz]"
  by (simp add: M_def matvec_def dot_def cross_def)

section \<open>Shape validation\<close>

text \<open>
  C7. \<open>lonlat\<close>, \<open>M\<close> and \<open>rotationMatrix\<close> each raise ValueError on a one-dimensional
  input that does not have exactly three components, such as one of length 2 or 4.
\<close>

theorem shape_errors:
  "length v \<noteq> 3 \<Longrightarrow>
     lonlat v = Inl ValueError \<and> M v = Inl ValueError \<and> rotationMatrix v = Inl ValueError"
  by (simp add: lonlat_def M_def rotationMatrix_def)

theorem shape_errors_witness:
  "length [1, 2 :: real] \<noteq> 3 \<and> lonlat [1, 2] = Inl ValueError \<and> M [1, 2] = Inl ValueError
     \<and> rotationMatrix [1, 2] = Inl ValueError
   \<and> length [1, 2, 3, 4 :: real] \<noteq> 3 \<and> lonlat [1, 2, 3, 4] = Inl ValueError
     \<and> M [1, 2, 3, 4] = Inl ValueError \<and> rotationMatrix [1, 2, 3, 4] = Inl ValueError"
  using shape_errors [of "[1, 2]"] shape_errors [of "[1, 2, 3, 4]"] by simp

section \<open>Position vectors\<close>

text \<open>
  C5. For every longitude and latitude in decimal degrees, \<open>positionVector\<close> returns a
  vector of length 1.
\<close>

theorem positionVector_unit_length:
  "\<exists>v. positionVector [lon, lat] = Inr v \<and> lengthV v = 1"
  by (simp add: positionVector_def Let_def lengthV_def dot_def unit_sphere)

section \<open>Reading a multi-segment file\<close>

text \<open>
  C9. \<open>readGMTxy\<close> appends a segment to \<open>feature\<close> only when it meets the next \<open>>\<close>
  line; after the loop it returns \<open>feature\<close> as it is. In a file of two segments that
  ends with its last data line, the second segment is not returned; the same file with
  one more \<open>>\<close> line at its end returns both.
\<close>

theorem readGMTxy_last_segment_lost:
  "readGMTxy float_digits
     [''> first\<newline>'', ''1 2\<newline>'', ''3 4\<newline>'', ''> second\<newline>'', ''5 6\<newline>'']
   = Inr [[[1, 3], [2, 4]]]
   \<and> readGMTxy float_digits
     [''> first\<newline>'', ''1 2\<newline>'', ''3 4\<newline>'', ''> second\<newline>'', ''5 6\<newline>'',
      ''>\<newline>'']
   = Inr [[[1, 3], [2, 4]], [[5], [6]]]"
  by (simp add: readGMTxy_def split_def strip_def is_space_def float_digits_def digit_of_def)

end
